theory Spec2Isabelle
  imports Complex_Main
begin

section \<open>Python values, exceptions and the JSON documents of the history file\<close>

text \<open>
  The program is \<^verbatim>\<open>reword.py\<close>: a class \<^verbatim>\<open>TextFormatterBot\<close> whose
  \<^verbatim>\<open>format_text\<close> sends a text to a remote completion client inside a retry loop,
  whose \<^verbatim>\<open>save_to_history\<close> appends one entry to a JSON file, and whose
  \<^verbatim>\<open>display_statistics\<close> aggregates that file.

  Python strings are modelled as \<open>string\<close>: a character is a code point below 256 and
  \<open>length\<close> is Python's \<^verbatim>\<open>len\<close>. Python integers are \<open>int\<close>. Python floats
  are modelled by the rational number they approximate (\<open>rat\<close>): no rounding, no NaN.
\<close>

text \<open>
  The exceptions the program raises or meets. \<open>PyException msg ctx\<close> is the plain
  \<^verbatim>\<open>Exception(msg)\<close> raised inside an \<^verbatim>\<open>except\<close> block: Python stores the
  exception being handled as its \<^verbatim>\<open>__context__\<close>, here \<open>ctx\<close>. \<open>APIError\<close>
  stands for \<^verbatim>\<open>openai.APIError\<close> and its subclasses.
\<close>

datatype error =
    ValueError string
  | KeyError string
  | TypeError
  | AttributeError
  | IndexError
  | ZeroDivisionError
  | JSONDecodeError
  | OSError string
  | APIError string
  | RuntimeError string
  | PyException string error

text \<open>
  What \<^verbatim>\<open>json.load\<close> returns: the values of Python's \<^verbatim>\<open>json\<close> module. A
  dictionary is given by its items in insertion order; its keys are distinct.
\<close>

datatype json =
    JNull
  | JBool bool
  | JInt int
  | JFloat rat
  | JStr string
  | JArr "json list"
  | JObj "(string \<times> json) list"

text \<open>
  The content of a file as \<^verbatim>\<open>json.load\<close> sees it: a document, or text that is
  not JSON (an empty or cut-off file included), on which it raises
  \<^verbatim>\<open>JSONDecodeError\<close>.
\<close>

datatype file_content = Garbled | Document json

section \<open>The task registry and the bot\<close>

record TaskConfig =
  name :: string
  description :: string
  instruction :: string
  max_tokens :: int
  temperature :: rat

datatype message = Message (role: string) (content: string)

record request =
  req_model :: string
  req_messages :: "message list"
  req_max_tokens :: int
  req_temperature :: rat

text \<open>
  What one call of \<^verbatim>\<open>client.chat.completions.create\<close> does: it returns a response,
  given here by the message contents of its \<^verbatim>\<open>choices\<close>, or it raises.
\<close>

datatype completion = Response "string list" | Raises error

text \<open>
  The remote client is an external collaborator: its answer may depend on how many
  calls it has received so far and on the request.
\<close>

type_synonym remote_client = "nat \<Rightarrow> request \<Rightarrow> completion"

record TextFormatterBot =
  model_name :: string
  tasks :: "(string \<times> TaskConfig) list"
  client :: "remote_client option"

text \<open>\<^verbatim>\<open>__init__\<close>: the three tasks, in insertion order, and no client yet.\<close>

definition init :: TextFormatterBot where
  "init = \<lparr>
     model_name = ''gpt-4-1106-preview'',
     tasks = [
       (''formal'', \<lparr>
          name = ''formal'',
          description = ''Professional and polished format'',
          instruction = ''Please rewrite the following text in a professional, clear, and well-structured format, ''
                        @ ''fixing any typos or grammatical errors.'',
          max_tokens = 500,
          temperature = 7 / 10\<rparr>),
       (''bullet'', \<lparr>
          name = ''bullet'',
          description = ''Convert to organized bullet points'',
          instruction = ''Please convert the following text into organized bullet points, ''
                        @ ''fixing any typos or grammatical errors.'',
          max_tokens = 500,
          temperature = 7 / 10\<rparr>),
       (''summarize'', \<lparr>
          name = ''summarize'',
          description = ''Create a clear summary'',
          instruction = ''Please provide a clear, organized summary of the following text, ''
                        @ ''fixing any typos or grammatical errors.'',
          max_tokens = 300,
          temperature = 7 / 10\<rparr>)],
     client = None\<rparr>"

text \<open>
  \<^verbatim>\<open>load_config\<close>: the API key comes from the environment; without one (unset or
  empty) it raises, otherwise the client is created.
\<close>

definition load_config :: "string option \<Rightarrow> (string \<Rightarrow> remote_client) \<Rightarrow> TextFormatterBot
    \<Rightarrow> error + TextFormatterBot" where
  "load_config api_key openai self =
     (case api_key of
        None \<Rightarrow> Inl (ValueError ''OPENAI_API_KEY not found in environment variables'')
      | Some k \<Rightarrow>
          if k = [] then Inl (ValueError ''OPENAI_API_KEY not found in environment variables'')
          else Inr (self\<lparr>client := Some (openai k)\<rparr>))"

section \<open>The world outside the bot\<close>

datatype log_record =
    ApiErrorLogged nat nat error
  | UnexpectedErrorLogged error
  | FailedToSaveHistory error
  | ErrorDisplayingStatistics error

text \<open>
  The state the program acts on: the history file (\<open>None\<close> when it does not exist),
  and the traces of its effects, in order: the requests sent to the remote client, the
  arguments of \<^verbatim>\<open>time.sleep\<close>, the records written with \<^verbatim>\<open>logging.error\<close>, and
  each true division \<^verbatim>\<open>a / b\<close> evaluated, as \<open>(a, b)\<close>.
\<close>

record world =
  history_file :: "file_content option"
  requests :: "request list"
  sleeps :: "int list"
  logged :: "log_record list"
  divisions :: "(rat \<times> rat) list"

text \<open>
  What the operating system decides during one operation: the time
  \<^verbatim>\<open>time.strftime\<close> reports, and whether a file operation fails with
  \<^verbatim>\<open>OSError\<close>: reading the file, opening it for writing (the file is then
  untouched), or writing to it once \<^verbatim>\<open>open(..., 'w')\<close> has truncated it.
\<close>

record environment =
  clock :: string
  read_error :: "string option"
  open_error :: "string option"
  dump_error :: "string option"

definition no_faults :: "string \<Rightarrow> environment" where
  "no_faults now = \<lparr>clock = now, read_error = None, open_error = None, dump_error = None\<rparr>"

section \<open>The history log: \<^verbatim>\<open>save_to_history\<close>\<close>

text \<open>\<^verbatim>\<open>with open(self.history_file, 'r') as f: json.load(f)\<close>\<close>

definition read_history :: "environment \<Rightarrow> world \<Rightarrow> error + json" where
  "read_history env w =
     (case read_error env of
        Some msg \<Rightarrow> Inl (OSError msg)
      | None \<Rightarrow>
          (case history_file w of
             None \<Rightarrow> Inl (OSError ''No such file or directory'')
           | Some Garbled \<Rightarrow> Inl JSONDecodeError
           | Some (Document d) \<Rightarrow> Inr d))"

text \<open>
  \<^verbatim>\<open>with open(self.history_file, 'w') as f: json.dump(history, f, indent=2)\<close>.
  Opening truncates the file; a write that fails afterwards leaves cut-off text.
\<close>

definition write_history :: "environment \<Rightarrow> json \<Rightarrow> world \<Rightarrow> (error + unit) \<times> world" where
  "write_history env history w =
     (case open_error env of
        Some msg \<Rightarrow> (Inl (OSError msg), w)
      | None \<Rightarrow>
          (case dump_error env of
             Some msg \<Rightarrow> (Inl (OSError msg), w\<lparr>history_file := Some Garbled\<rparr>)
           | None \<Rightarrow> (Inr (), w\<lparr>history_file := Some (Document history)\<rparr>)))"

text \<open>\<^verbatim>\<open>history.append(x)\<close>: only a list has the method.\<close>

definition py_append :: "json \<Rightarrow> json \<Rightarrow> error + json" where
  "py_append history x =
     (case history of JArr xs \<Rightarrow> Inr (JArr (xs @ [x])) | _ \<Rightarrow> Inl AttributeError)"

text \<open>The dictionary literal of \<^verbatim>\<open>save_to_history\<close>.\<close>

definition history_entry :: "string \<Rightarrow> string \<Rightarrow> nat \<Rightarrow> nat \<Rightarrow> json" where
  "history_entry now task_id input_len output_len =
     JObj [(''timestamp'', JStr now),
           (''task'', JStr task_id),
           (''input_length'', JInt (int input_len)),
           (''output_length'', JInt (int output_len))]"

text \<open>The body of the \<^verbatim>\<open>try\<close> block of \<^verbatim>\<open>save_to_history\<close>.\<close>

definition save_to_history_try :: "environment \<Rightarrow> string \<Rightarrow> string \<Rightarrow> string \<Rightarrow> world
    \<Rightarrow> (error + unit) \<times> world" where
  "save_to_history_try env input_text task_id output_text w =
     (case (if history_file w \<noteq> None then read_history env w else Inr (JArr [])) of
        Inl e \<Rightarrow> (Inl e, w)
      | Inr history \<Rightarrow>
          (case py_append history
                  (history_entry (clock env) task_id (length input_text) (length output_text)) of
             Inl e \<Rightarrow> (Inl e, w)
           | Inr history' \<Rightarrow> write_history env history' w))"

text \<open>\<^verbatim>\<open>save_to_history\<close>: every exception of the body is logged and swallowed.\<close>

definition save_to_history :: "environment \<Rightarrow> string \<Rightarrow> string \<Rightarrow> string \<Rightarrow> world \<Rightarrow> world" where
  "save_to_history env input_text task_id output_text w =
     (case save_to_history_try env input_text task_id output_text w of
        (Inl e, w') \<Rightarrow> w'\<lparr>logged := logged w' @ [FailedToSaveHistory e]\<rparr>
      | (Inr u, w') \<Rightarrow> w')"

section \<open>The retrying formatter: \<^verbatim>\<open>format_text\<close>\<close>

text \<open>
  \<^verbatim>\<open>str.isspace\<close> on the code points below 256, and \<^verbatim>\<open>str.strip()\<close>.
\<close>

definition isspace :: "char \<Rightarrow> bool" where
  "isspace c =
     (let n = (of_char c :: nat)
      in (9 \<le> n \<and> n \<le> 13) \<or> (28 \<le> n \<and> n \<le> 32) \<or> n = 133 \<or> n = 160)"

definition strip :: "string \<Rightarrow> string" where
  "strip s = rev (dropWhile isspace (rev (dropWhile isspace s)))"

text \<open>The keyword arguments of \<^verbatim>\<open>chat.completions.create\<close>.\<close>

definition build_request :: "TextFormatterBot \<Rightarrow> TaskConfig \<Rightarrow> string \<Rightarrow> request" where
  "build_request self task_config input_text =
     \<lparr>req_model = model_name self,
      req_messages = [Message ''system'' (instruction task_config), Message ''user'' input_text],
      req_max_tokens = max_tokens task_config,
      req_temperature = temperature task_config\<rparr>"

definition is_APIError :: "error \<Rightarrow> bool" where
  "is_APIError e = (case e of APIError m \<Rightarrow> True | _ \<Rightarrow> False)"

text \<open>
  The loop \<^verbatim>\<open>for attempt in range(max_retries)\<close>, over the attempts still to
  make. A loop that ran out would let the function end without a \<^verbatim>\<open>return\<close>:
  Python's \<^verbatim>\<open>None\<close>, here \<open>Inr None\<close>.
\<close>

fun attempt_loop :: "TextFormatterBot \<Rightarrow> remote_client \<Rightarrow> environment \<Rightarrow> string \<Rightarrow> string
    \<Rightarrow> TaskConfig \<Rightarrow> nat \<Rightarrow> nat list \<Rightarrow> int \<Rightarrow> world \<Rightarrow> (error + string option) \<times> world" where
  "attempt_loop self c env input_text task_id task_config max_retries [] retry_delay w =
     (Inr None, w)"
| "attempt_loop self c env input_text task_id task_config max_retries (attempt # rest) retry_delay w =
     (let req = build_request self task_config input_text;
          w1 = w\<lparr>requests := requests w @ [req]\<rparr>
      in case c (length (requests w)) req of
           Response choices \<Rightarrow>
             (case choices of
                [] \<Rightarrow> (Inl IndexError, w1\<lparr>logged := logged w1 @ [UnexpectedErrorLogged IndexError]\<rparr>)
              | formatted_text # others \<Rightarrow>
                  (Inr (Some formatted_text),
                   save_to_history env input_text task_id formatted_text w1))
         | Raises e \<Rightarrow>
             if is_APIError e then
               (let w2 = w1\<lparr>logged := logged w1 @ [ApiErrorLogged (attempt + 1) max_retries e]\<rparr>
                in if attempt < max_retries - 1 then
                     attempt_loop self c env input_text task_id task_config max_retries rest
                       (retry_delay * 2) (w2\<lparr>sleeps := sleeps w2 @ [retry_delay]\<rparr>)
                   else (Inl (PyException ''Failed to format text after multiple attempts'' e), w2))
             else (Inl e, w1\<lparr>logged := logged w1 @ [UnexpectedErrorLogged e]\<rparr>))"

definition format_text :: "TextFormatterBot \<Rightarrow> environment \<Rightarrow> string \<Rightarrow> string \<Rightarrow> world
    \<Rightarrow> (error + string option) \<times> world" where
  "format_text self env input_text task_id w =
     (if strip input_text = [] then (Inl (ValueError ''Input text cannot be empty''), w)
      else case client self of
             None \<Rightarrow> (Inl (ValueError ''OpenAI client not initialized''), w)
           | Some c \<Rightarrow>
               (case map_of (tasks self) task_id of
                  None \<Rightarrow> (Inl (KeyError task_id), w)
                | Some task_config \<Rightarrow>
                    (let max_retries = 3; retry_delay = 1
                     in attempt_loop self c env input_text task_id task_config
                          max_retries [0..<max_retries] retry_delay w)))"

section \<open>The statistics view: \<^verbatim>\<open>display_statistics\<close>\<close>

text \<open>Sequencing of steps that may raise: the first exception ends the block.\<close>

definition and_then :: "error + 'a \<Rightarrow> ('a \<Rightarrow> error + 'b) \<Rightarrow> error + 'b" where
  "and_then r f = (case r of Inl e \<Rightarrow> Inl e | Inr x \<Rightarrow> f x)"

text \<open>
  Python's view of a loaded JSON value: its truth value (\<^verbatim>\<open>not history\<close>),
  \<^verbatim>\<open>len\<close>, iteration (\<^verbatim>\<open>for entry in history\<close>: the items of a list, the keys
  of a dictionary, the characters of a string) and subscription with a string
  (\<^verbatim>\<open>entry['task']\<close>).
\<close>

fun truthy :: "json \<Rightarrow> bool" where
  "truthy JNull = False"
| "truthy (JBool b) = b"
| "truthy (JInt i) = (i \<noteq> 0)"
| "truthy (JFloat r) = (r \<noteq> 0)"
| "truthy (JStr s) = (s \<noteq> [])"
| "truthy (JArr xs) = (xs \<noteq> [])"
| "truthy (JObj kvs) = (kvs \<noteq> [])"

fun len :: "json \<Rightarrow> error + nat" where
  "len (JStr s) = Inr (length s)"
| "len (JArr xs) = Inr (length xs)"
| "len (JObj kvs) = Inr (length kvs)"
| "len v = Inl TypeError"

fun iterate :: "json \<Rightarrow> error + json list" where
  "iterate (JStr s) = Inr (map (\<lambda>ch. JStr [ch]) s)"
| "iterate (JArr xs) = Inr xs"
| "iterate (JObj kvs) = Inr (map (\<lambda>kv. JStr (fst kv)) kvs)"
| "iterate v = Inl TypeError"

fun getitem :: "json \<Rightarrow> string \<Rightarrow> error + json" where
  "getitem (JObj kvs) k = (case map_of kvs k of None \<Rightarrow> Inl (KeyError k) | Some v \<Rightarrow> Inr v)"
| "getitem v k = Inl TypeError"

text \<open>
  The keys of the dictionary \<^verbatim>\<open>task_counts\<close>. Python compares keys by value:
  \<^verbatim>\<open>True\<close>, \<^verbatim>\<open>1\<close> and \<^verbatim>\<open>1.0\<close> are one key; lists and dictionaries cannot
  be keys (\<^verbatim>\<open>TypeError\<close>: unhashable).
\<close>

datatype dict_key = NoneKey | NumKey rat | StrKey string

fun hash_key :: "json \<Rightarrow> error + dict_key" where
  "hash_key JNull = Inr NoneKey"
| "hash_key (JBool b) = Inr (NumKey (if b then 1 else 0))"
| "hash_key (JInt i) = Inr (NumKey (of_int i))"
| "hash_key (JFloat r) = Inr (NumKey r)"
| "hash_key (JStr s) = Inr (StrKey s)"
| "hash_key v = Inl TypeError"

text \<open>
  The dictionary itself, in insertion order: the key, the task as first inserted (what
  \<^verbatim>\<open>items()\<close> yields) and its count. \<open>dict_get\<close> is \<^verbatim>\<open>task_counts.get(task, 0)\<close> and
  \<open>dict_set\<close> is \<^verbatim>\<open>task_counts[task] = v\<close>.
\<close>

type_synonym task_counts = "(dict_key \<times> json \<times> nat) list"

fun dict_get :: "task_counts \<Rightarrow> dict_key \<Rightarrow> nat \<Rightarrow> nat" where
  "dict_get [] k d = d"
| "dict_get ((k', t, n) # rest) k d = (if k' = k then n else dict_get rest k d)"

fun dict_set :: "task_counts \<Rightarrow> dict_key \<Rightarrow> json \<Rightarrow> nat \<Rightarrow> task_counts" where
  "dict_set [] k t v = [(k, t, v)]"
| "dict_set ((k', t', n) # rest) k t v =
     (if k' = k then (k', t', v) # rest else (k', t', n) # dict_set rest k t v)"

text \<open>\<^verbatim>\<open>total += x\<close> on a number: a string, a list, a dictionary or \<^verbatim>\<open>None\<close> raises.\<close>

fun add_number :: "rat \<Rightarrow> json \<Rightarrow> error + rat" where
  "add_number acc (JInt i) = Inr (acc + of_int i)"
| "add_number acc (JBool b) = Inr (acc + (if b then 1 else 0))"
| "add_number acc (JFloat r) = Inr (acc + r)"
| "add_number acc v = Inl TypeError"

text \<open>The loop \<^verbatim>\<open>for entry in history\<close> over the counters it updates.\<close>

fun count_entries :: "json list \<Rightarrow> task_counts \<times> rat \<times> rat \<Rightarrow> error + task_counts \<times> rat \<times> rat" where
  "count_entries [] acc = Inr acc"
| "count_entries (entry # rest) (counts, total_input_length, total_output_length) =
     and_then (getitem entry ''task'') (\<lambda>task_id.
     and_then (hash_key task_id) (\<lambda>k.
     and_then (getitem entry ''input_length'') (\<lambda>input_length.
     and_then (add_number total_input_length input_length) (\<lambda>total_input_length'.
     and_then (getitem entry ''output_length'') (\<lambda>output_length.
     and_then (add_number total_output_length output_length) (\<lambda>total_output_length'.
       count_entries rest
         (dict_set counts k task_id (dict_get counts k 0 + 1),
          total_input_length', total_output_length')))))))"

text \<open>True division \<^verbatim>\<open>a / b\<close>, recorded in the trace of divisions.\<close>

definition truediv :: "rat \<Rightarrow> rat \<Rightarrow> world \<Rightarrow> (error + rat) \<times> world" where
  "truediv a b w =
     (if b = 0 then Inl ZeroDivisionError else Inr (a / b),
      w\<lparr>divisions := divisions w @ [(a, b)]\<rparr>)"

text \<open>
  The loop \<^verbatim>\<open>for task, count in task_counts.items()\<close>: one line per task, with its
  count and \<^verbatim>\<open>(count / total_uses) * 100\<close>.
\<close>

fun task_usage :: "nat \<Rightarrow> task_counts \<Rightarrow> world \<Rightarrow> (error + (json \<times> nat \<times> rat) list) \<times> world" where
  "task_usage total_uses [] w = (Inr [], w)"
| "task_usage total_uses ((k, task_id, n) # rest) w =
     (case truediv (of_nat n) (of_nat total_uses) w of
        (Inl e, w') \<Rightarrow> (Inl e, w')
      | (Inr q, w') \<Rightarrow>
          (case task_usage total_uses rest w' of
             (Inl e, w'') \<Rightarrow> (Inl e, w'')
           | (Inr usage, w'') \<Rightarrow> (Inr ((task_id, n, q * 100) # usage), w'')))"

text \<open>What the report shows, before the numbers are formatted for printing.\<close>

record statistics =
  total_uses :: nat
  usage :: "(json \<times> nat \<times> rat) list"
  avg_input_length :: rat
  avg_output_length :: rat

datatype stats_outcome =
    NoHistory
  | Statistics statistics
  | ErrorLoadingStatistics error

text \<open>The statements from \<^verbatim>\<open>total_uses = len(history)\<close> to the last \<^verbatim>\<open>print\<close>.\<close>

definition compute_statistics :: "json \<Rightarrow> world \<Rightarrow> (error + statistics) \<times> world" where
  "compute_statistics history w =
     (case and_then (len history) (\<lambda>n.
           and_then (iterate history) (\<lambda>entries.
           and_then (count_entries entries ([], 0, 0)) (\<lambda>acc. Inr (n, acc)))) of
        Inl e \<Rightarrow> (Inl e, w)
      | Inr (n, counts, total_input_length, total_output_length) \<Rightarrow>
          (case task_usage n counts w of
             (Inl e, w1) \<Rightarrow> (Inl e, w1)
           | (Inr lines, w1) \<Rightarrow>
               (case truediv total_input_length (of_nat n) w1 of
                  (Inl e, w2) \<Rightarrow> (Inl e, w2)
                | (Inr avg_in, w2) \<Rightarrow>
                    (case truediv total_output_length (of_nat n) w2 of
                       (Inl e, w3) \<Rightarrow> (Inl e, w3)
                     | (Inr avg_out, w3) \<Rightarrow>
                         (Inr \<lparr>total_uses = n, usage = lines,
                               avg_input_length = avg_in, avg_output_length = avg_out\<rparr>, w3)))))"

definition display_statistics :: "environment \<Rightarrow> world \<Rightarrow> stats_outcome \<times> world" where
  "display_statistics env w =
     (if history_file w = None then (NoHistory, w)
      else case read_history env w of
             Inl e \<Rightarrow> (ErrorLoadingStatistics e, w\<lparr>logged := logged w @ [ErrorDisplayingStatistics e]\<rparr>)
           | Inr history \<Rightarrow>
               if \<not> truthy history then (NoHistory, w)
               else (case compute_statistics history w of
                       (Inl e, w') \<Rightarrow>
                         (ErrorLoadingStatistics e,
                          w'\<lparr>logged := logged w' @ [ErrorDisplayingStatistics e]\<rparr>)
                     | (Inr s, w') \<Rightarrow> (Statistics s, w')))"

section \<open>Concrete bots, clients and worlds\<close>

text \<open>A bot after \<^verbatim>\<open>load_config\<close> has created the client \<open>c\<close>.\<close>

definition configured :: "remote_client \<Rightarrow> TextFormatterBot" where
  "configured c = init\<lparr>client := Some c\<rparr>"

text \<open>
  A client that fails with an API error on its first \<open>k\<close> calls and answers \<open>reply\<close>
  from then on.
\<close>

definition flaky_client :: "nat \<Rightarrow> string \<Rightarrow> remote_client" where
  "flaky_client k reply n req = (if n < k then Raises (APIError ''rate limit'') else Response [reply])"

text \<open>A world with no history file and nothing done yet, and one with a given file.\<close>

definition fresh_world :: world where
  "fresh_world = \<lparr>history_file = None, requests = [], sleeps = [], logged = [], divisions = []\<rparr>"

definition world_with :: "file_content \<Rightarrow> world" where
  "world_with f = fresh_world\<lparr>history_file := Some f\<rparr>"

text \<open>
  A history entry by its four fields (timestamp, task, input length, output length), as
  \<open>save_to_history\<close> writes it, and the fields read back from an entry by their keys.
\<close>

definition entry_of :: "string \<times> string \<times> nat \<times> nat \<Rightarrow> json" where
  "entry_of e = (case e of (stamp, task_id, input_len, output_len) \<Rightarrow>
     history_entry stamp task_id input_len output_len)"


definition sample_history :: "(string \<times> string \<times> nat \<times> nat) list" where
  "sample_history =
     [(''2024-05-01 10:00:00'', ''formal'', 5, 6),
      (''2024-05-02 11:30:00'', ''bullet'', 9, 11),
      (''2024-05-03 08:15:00'', ''formal'', 10, 13),
      (''2024-05-03 08:20:00'', ''summarize'', 40, 18)]"


section \<open>Basic facts\<close>

lemma range3: "[0..<3] = [0, 1, 2]"
  by (simp add: upt_rec)

lemma strip_empty_iff: "strip s = [] \<longleftrightarrow> (\<forall>ch \<in> set s. isspace ch)"
proof
  assume "strip s = []"
  then have spaces: "\<forall>x \<in> set (dropWhile isspace s). isspace x"
    by (simp add: strip_def)
  have "dropWhile isspace s = []"
  proof (rule ccontr)
    assume ne: "dropWhile isspace s \<noteq> []"
    then have "\<not> isspace (hd (dropWhile isspace s))" by (rule hd_dropWhile)
    moreover have "hd (dropWhile isspace s) \<in> set (dropWhile isspace s)" using ne by simp
    ultimately show False using spaces by blast
  qed
  then show "\<forall>ch \<in> set s. isspace ch" by simp
next
  assume "\<forall>ch \<in> set s. isspace ch"
  then show "strip s = []" by (auto simp: strip_def dest: set_dropWhileD)
qed

lemma load_config_configured:
  "k \<noteq> [] \<Longrightarrow> load_config (Some k) openai init = Inr (configured (openai k))"
  by (simp add: load_config_def configured_def)

text \<open>Writing the history touches nothing but the file (and, on failure, the log).\<close>

lemma write_history_frame:
  "requests (snd (write_history env h w)) = requests w"
  "sleeps (snd (write_history env h w)) = sleeps w"
  "logged (snd (write_history env h w)) = logged w"
  "divisions (snd (write_history env h w)) = divisions w"
  by (simp_all add: write_history_def split: option.splits)

lemma save_to_history_try_frame:
  "requests (snd (save_to_history_try env i t out w)) = requests w"
  "sleeps (snd (save_to_history_try env i t out w)) = sleeps w"
  "logged (snd (save_to_history_try env i t out w)) = logged w"
  "divisions (snd (save_to_history_try env i t out w)) = divisions w"
  by (simp_all add: save_to_history_try_def write_history_frame split: sum.splits)

lemma save_to_history_frame:
  "requests (save_to_history env i t out w) = requests w"
  "sleeps (save_to_history env i t out w) = sleeps w"
  "divisions (save_to_history env i t out w) = divisions w"
  using save_to_history_try_frame [of env i t out w]
  by (auto simp add: save_to_history_def split: prod.splits sum.splits)

section \<open>The retry loop\<close>

text \<open>
  Claim C1. For a non-empty input and a known task, when the remote client raises an
  API error on the first and on the second attempt and answers on the third,
  \<open>format_text\<close> returns the text of the third attempt's first choice, has sent exactly
  three requests, and has slept twice: 1 after the first failure, 2 after the second.
\<close>

theorem format_text_third_attempt:
  assumes "strip input_text \<noteq> []"
    and "client self = Some c"
    and "map_of (tasks self) task_id = Some task_config"
    and "req = build_request self task_config input_text"
    and "c (length (requests w)) req = Raises e1" and "is_APIError e1"
    and "c (length (requests w) + 1) req = Raises e2" and "is_APIError e2"
    and "c (length (requests w) + 2) req = Response (formatted_text # others)"
  shows "fst (format_text self env input_text task_id w) = Inr (Some formatted_text)
       \<and> requests (snd (format_text self env input_text task_id w)) = requests w @ [req, req, req]
       \<and> sleeps (snd (format_text self env input_text task_id w)) = sleeps w @ [1, 2]"
  using assms
  by (simp add: format_text_def range3 Let_def save_to_history_frame)

theorem format_text_third_attempt_witness:
  "fst (format_text (configured (flaky_client 2 ''Done.'')) (no_faults ''2024-05-01 10:00:00'')
          ''hello'' ''formal'' fresh_world) = Inr (Some ''Done.'')
   \<and> length (requests (snd (format_text (configured (flaky_client 2 ''Done.''))
          (no_faults ''2024-05-01 10:00:00'') ''hello'' ''formal'' fresh_world))) = 3
   \<and> sleeps (snd (format_text (configured (flaky_client 2 ''Done.''))
          (no_faults ''2024-05-01 10:00:00'') ''hello'' ''formal'' fresh_world)) = [1, 2]"
  using format_text_third_attempt [where input_text = "''hello''"
      and self = "configured (flaky_client 2 ''Done.'')" and c = "flaky_client 2 ''Done.''"
      and task_id = "''formal''" and w = fresh_world and env = "no_faults ''2024-05-01 10:00:00''"
      and task_config = "snd (hd (tasks init))"
      and req = "build_request (configured (flaky_client 2 ''Done.'')) (snd (hd (tasks init))) ''hello''"
      and ?e1.0 = "APIError ''rate limit''" and ?e2.0 = "APIError ''rate limit''"
      and formatted_text = "''Done.''" and others = "[]"]
  by (simp add: configured_def init_def flaky_client_def fresh_world_def strip_def isspace_def
      is_APIError_def)

text \<open>
  Claim C2. For a non-empty input and a known task, when the remote client raises an
  API error on all three attempts, \<open>format_text\<close> raises the exception
  \<^verbatim>\<open>Exception("Failed to format text after multiple attempts")\<close> whose context is
  the error of the last attempt, and the history file is what it was: no entry is
  written.
\<close>

theorem format_text_exhausted:
  assumes "strip input_text \<noteq> []"
    and "client self = Some c"
    and "map_of (tasks self) task_id = Some task_config"
    and "req = build_request self task_config input_text"
    and "c (length (requests w)) req = Raises e1" and "is_APIError e1"
    and "c (length (requests w) + 1) req = Raises e2" and "is_APIError e2"
    and "c (length (requests w) + 2) req = Raises e3" and "is_APIError e3"
  shows "fst (format_text self env input_text task_id w) =
           Inl (PyException ''Failed to format text after multiple attempts'' e3)
       \<and> history_file (snd (format_text self env input_text task_id w)) = history_file w
       \<and> requests (snd (format_text self env input_text task_id w)) = requests w @ [req, req, req]
       \<and> sleeps (snd (format_text self env input_text task_id w)) = sleeps w @ [1, 2]"
  using assms
  by (simp add: format_text_def range3 Let_def)

theorem format_text_exhausted_witness:
  "fst (format_text (configured (flaky_client 3 ''Done.'')) (no_faults ''2024-05-01 10:00:00'')
          ''hello'' ''bullet'' fresh_world)
     = Inl (PyException ''Failed to format text after multiple attempts'' (APIError ''rate limit''))
   \<and> history_file (snd (format_text (configured (flaky_client 3 ''Done.''))
          (no_faults ''2024-05-01 10:00:00'') ''hello'' ''bullet'' fresh_world)) = None
   \<and> length (requests (snd (format_text (configured (flaky_client 3 ''Done.''))
          (no_faults ''2024-05-01 10:00:00'') ''hello'' ''bullet'' fresh_world))) = 3"
  using format_text_exhausted [where input_text = "''hello''"
      and self = "configured (flaky_client 3 ''Done.'')" and c = "flaky_client 3 ''Done.''"
      and task_id = "''bullet''" and w = fresh_world and env = "no_faults ''2024-05-01 10:00:00''"
      and task_config = "snd (hd (tl (tasks init)))"
      and req = "build_request (configured (flaky_client 3 ''Done.'')) (snd (hd (tl (tasks init)))) ''hello''"
      and ?e1.0 = "APIError ''rate limit''" and ?e2.0 = "APIError ''rate limit''"
      and ?e3.0 = "APIError ''rate limit''"]
  by (simp add: configured_def init_def flaky_client_def fresh_world_def strip_def isspace_def
      is_APIError_def)

text \<open>
  Whatever the client does, a call of \<open>format_text\<close> that returns a text has sent one
  and the same request on each attempt: the attempts before the last one raised an API
  error and the last one answered.
\<close>

lemma attempt_loop_success:
  assumes "attempt_loop self c env input_text task_id task_config m atts d w = (Inr (Some text), w')"
  shows "\<exists>k others. 1 \<le> k \<and> k \<le> length atts
      \<and> requests w' = requests w @ replicate k (build_request self task_config input_text)
      \<and> c (length (requests w) + (k - 1)) (build_request self task_config input_text) = Response (text # others)
      \<and> (\<forall>j < k - 1. \<exists>e. c (length (requests w) + j) (build_request self task_config input_text) = Raises e \<and> is_APIError e)"
  using assms
proof (induction atts arbitrary: d w)
  case Nil
  then show ?case by simp
next
  case (Cons a atts)
  let ?req = "build_request self task_config input_text"
  show ?case
  proof (cases "c (length (requests w)) ?req")
    case (Response choices)
    with Cons.prems obtain others where ch: "choices = text # others"
      and w': "w' = save_to_history env input_text task_id text (w\<lparr>requests := requests w @ [?req]\<rparr>)"
      by (auto simp: Let_def split: list.splits)
    have "requests w' = requests w @ replicate 1 ?req"
      by (simp add: w' save_to_history_frame)
    with Response ch show ?thesis
      by (intro exI [of _ 1] exI [of _ others]) simp
  next
    case (Raises e)
    with Cons.prems have api: "is_APIError e" and lt: "a < m - 1"
      by (auto simp: Let_def split: if_splits)
    let ?w2 = "w\<lparr>requests := requests w @ [?req],
                 logged := logged w @ [ApiErrorLogged (a + 1) m e],
                 sleeps := sleeps w @ [d]\<rparr>"
    from Cons.prems Raises api lt
    have "attempt_loop self c env input_text task_id task_config m atts (d * 2) ?w2 = (Inr (Some text), w')"
      by (simp add: Let_def)
    from Cons.IH [OF this] obtain k others where k: "1 \<le> k" "k \<le> length atts"
      and rq: "requests w' = requests ?w2 @ replicate k ?req"
      and last: "c (length (requests ?w2) + (k - 1)) ?req = Response (text # others)"
      and before: "\<forall>j < k - 1. \<exists>e. c (length (requests ?w2) + j) ?req = Raises e \<and> is_APIError e"
      by blast
    have "requests w' = requests w @ replicate (Suc k) ?req"
      using rq by (simp add: replicate_app_Cons_same)
    moreover have "c (length (requests w) + (Suc k - 1)) ?req = Response (text # others)"
      using last k by simp
    moreover have "\<forall>j < Suc k - 1. \<exists>e. c (length (requests w) + j) ?req = Raises e \<and> is_APIError e"
    proof (intro allI impI)
      fix j assume j: "j < Suc k - 1"
      show "\<exists>e. c (length (requests w) + j) ?req = Raises e \<and> is_APIError e"
      proof (cases j)
        case 0
        then show ?thesis using Raises api by simp
      next
        case (Suc i)
        then have "i < k - 1" using j by simp
        with before obtain e' where "c (length (requests ?w2) + i) ?req = Raises e'" "is_APIError e'"
          by blast
        then show ?thesis using Suc by simp
      qed
    qed
    ultimately show ?thesis using k
      by (intro exI [of _ "Suc k"] exI [of _ others]) simp
  qed
qed

text \<open>
  The loop over \<open>range(3)\<close> never runs out: its last attempt returns or raises, so
  \<open>format_text\<close> never ends without a \<^verbatim>\<open>return\<close>.
\<close>

lemma attempt_loop_returns:
  "atts \<noteq> [] \<Longrightarrow> (\<forall>a \<in> set (butlast atts). a < m - 1) \<Longrightarrow> \<not> last atts < m - 1
     \<Longrightarrow> fst (attempt_loop self c env input_text task_id task_config m atts d w) \<noteq> Inr None"
proof (induction atts arbitrary: d w)
  case Nil
  then show ?case by simp
next
  case (Cons a atts)
  show ?case
  proof (cases "atts = []")
    case True
    with Cons.prems show ?thesis
      by (auto simp add: Let_def split: completion.splits list.splits)
  next
    case False
    with Cons.prems have "\<forall>a \<in> set (butlast atts). a < m - 1" and "\<not> last atts < m - 1"
      and "a < m - 1" by auto
    with Cons.IH [OF False] show ?thesis
      by (auto simp add: Let_def split: completion.splits list.splits)
  qed
qed

lemma format_text_not_None:
  "fst (format_text self env input_text task_id w) \<noteq> Inr None"
  using attempt_loop_returns [of "[0, 1, 2]" 3 self]
  by (auto simp add: format_text_def range3 Let_def split: option.splits)

lemma tasks_init_cases:
  assumes "task_id \<in> {''formal'', ''bullet'', ''summarize''}"
  obtains task_config where "map_of (tasks init) task_id = Some task_config"
    and "max_tokens task_config = (if task_id = ''summarize'' then 300 else 500)"
    and "temperature task_config = 7 / 10"
  using assms by (auto simp: init_def)

text \<open>
  Claim C3, as amended. For a non-empty input and each of the three tasks, a call of
  \<open>format_text\<close> that returns a text has sent the same conversation request once per
  attempt, between one and three times, and exactly once precisely when the first
  attempt is answered. The request names the model, carries the task's instruction
  verbatim as the system message and the input verbatim as the user message, has
  \<open>max_tokens\<close> 500 for formal and bullet and 300 for summarize, and temperature 0.7.
  The text returned is the first choice of the answer to the last request.
\<close>

theorem format_text_requests:
  assumes "strip input_text \<noteq> []"
    and "task_id \<in> {''formal'', ''bullet'', ''summarize''}"
    and "fst (format_text (configured c) env input_text task_id w) = Inr (Some text)"
  shows "\<exists>k task_config req others.
      map_of (tasks init) task_id = Some task_config
    \<and> req = \<lparr>req_model = ''gpt-4-1106-preview'',
             req_messages = [Message ''system'' (instruction task_config), Message ''user'' input_text],
             req_max_tokens = (if task_id = ''summarize'' then 300 else 500),
             req_temperature = 7 / 10\<rparr>
    \<and> 1 \<le> k \<and> k \<le> 3
    \<and> requests (snd (format_text (configured c) env input_text task_id w)) = requests w @ replicate k req
    \<and> c (length (requests w) + (k - 1)) req = Response (text # others)
    \<and> (k = 1 \<longleftrightarrow> (\<exists>choices. c (length (requests w)) req = Response choices))"
proof -
  from assms(2) obtain task_config where cfg: "map_of (tasks init) task_id = Some task_config"
    and mt: "max_tokens task_config = (if task_id = ''summarize'' then 300 else 500)"
    and tp: "temperature task_config = 7 / 10"
    by (rule tasks_init_cases)
  let ?self = "configured c"
  let ?req = "build_request ?self task_config input_text"
  have req: "?req = \<lparr>req_model = ''gpt-4-1106-preview'',
             req_messages = [Message ''system'' (instruction task_config), Message ''user'' input_text],
             req_max_tokens = (if task_id = ''summarize'' then 300 else 500),
             req_temperature = 7 / 10\<rparr>"
    using mt tp by (simp add: build_request_def configured_def init_def)
  have ft: "format_text ?self env input_text task_id w =
      attempt_loop ?self c env input_text task_id task_config 3 [0..<3] 1 w"
    using assms(1) cfg by (simp add: format_text_def configured_def Let_def)
  obtain w' where loop: "attempt_loop ?self c env input_text task_id task_config 3 [0..<3] 1 w
      = (Inr (Some text), w')"
    using assms(3) ft by (metis prod.collapse)
  from attempt_loop_success [OF loop] obtain k others where k: "1 \<le> k" "k \<le> 3"
    and rq: "requests w' = requests w @ replicate k ?req"
    and last: "c (length (requests w) + (k - 1)) ?req = Response (text # others)"
    and before: "\<forall>j < k - 1. \<exists>e. c (length (requests w) + j) ?req = Raises e \<and> is_APIError e"
    by auto
  have one: "k = 1 \<longleftrightarrow> (\<exists>choices. c (length (requests w)) ?req = Response choices)"
  proof
    assume "k = 1"
    with last show "\<exists>choices. c (length (requests w)) ?req = Response choices" by simp
  next
    assume resp: "\<exists>choices. c (length (requests w)) ?req = Response choices"
    show "k = 1"
    proof (rule ccontr)
      assume "k \<noteq> 1"
      with k have "0 < k - 1" by simp
      with before obtain e where "c (length (requests w) + 0) ?req = Raises e" by blast
      with resp show False by simp
    qed
  qed
  have "requests (snd (format_text ?self env input_text task_id w)) = requests w @ replicate k ?req"
    using ft loop rq by simp
  with cfg k last one show ?thesis
    unfolding req by blast
qed

theorem format_text_requests_witness:
  "strip ''hello'' \<noteq> [] \<and> ''summarize'' \<in> {''formal'', ''bullet'', ''summarize''}
   \<and> fst (format_text (configured (flaky_client 0 ''Done.'')) (no_faults ''2024-05-01 10:00:00'')
        ''hello'' ''summarize'' fresh_world) = Inr (Some ''Done.'')
   \<and> (\<exists>k task_config req others.
      map_of (tasks init) ''summarize'' = Some task_config
    \<and> req = \<lparr>req_model = ''gpt-4-1106-preview'',
             req_messages = [Message ''system'' (instruction task_config), Message ''user'' ''hello''],
             req_max_tokens = (if ''summarize'' = ''summarize'' then 300 else 500),
             req_temperature = 7 / 10\<rparr>
    \<and> 1 \<le> k \<and> k \<le> 3
    \<and> requests (snd (format_text (configured (flaky_client 0 ''Done.'')) (no_faults ''2024-05-01 10:00:00'')
        ''hello'' ''summarize'' fresh_world)) = requests fresh_world @ replicate k req
    \<and> flaky_client 0 ''Done.'' (length (requests fresh_world) + (k - 1)) req = Response (''Done.'' # others)
    \<and> (k = 1 \<longleftrightarrow> (\<exists>choices. flaky_client 0 ''Done.'' (length (requests fresh_world)) req = Response choices)))"
proof -
  have h1: "strip ''hello'' \<noteq> []" by (simp add: strip_def isspace_def)
  have h2: "''summarize'' \<in> {''formal'', ''bullet'', ''summarize''}" by simp
  have h3: "fst (format_text (configured (flaky_client 0 ''Done.'')) (no_faults ''2024-05-01 10:00:00'')
        ''hello'' ''summarize'' fresh_world) = Inr (Some ''Done.'')"
    by (simp add: format_text_def configured_def init_def flaky_client_def fresh_world_def
        strip_def isspace_def range3 Let_def)
  show ?thesis using h1 h2 h3 format_text_requests [OF h1 h2 h3] by blast
qed

text \<open>
  Claim C3 as stated (a successful call issues exactly one request) fails when an
  attempt is retried: with a client that raises an API error once and then answers,
  the call returns the text and has sent two requests.
\<close>

theorem format_text_one_request_counterexample:
  "fst (format_text (configured (flaky_client 1 ''Done.'')) (no_faults ''2024-05-01 10:00:00'')
          ''hello'' ''formal'' fresh_world) = Inr (Some ''Done.'')
   \<and> length (requests (snd (format_text (configured (flaky_client 1 ''Done.''))
          (no_faults ''2024-05-01 10:00:00'') ''hello'' ''formal'' fresh_world))) = 2"
  by (simp add: format_text_def configured_def init_def flaky_client_def fresh_world_def
        strip_def isspace_def range3 Let_def save_to_history_frame is_APIError_def)

section \<open>Validation\<close>

text \<open>
  Claim C4, as amended. \<open>format_text\<close> fails at once and leaves the world as it is (no
  request is sent, nothing sleeps): with \<^verbatim>\<open>ValueError("Input text cannot be empty")\<close>
  for every input that is empty after stripping, whatever the client and the task; and
  with \<^verbatim>\<open>KeyError\<close> for every non-empty input whose task is not in the registry,
  when the bot has a client.
\<close>

theorem format_text_validation:
  "(strip input_text = [] \<longrightarrow>
      format_text self env input_text task_id w = (Inl (ValueError ''Input text cannot be empty''), w))
   \<and> (strip input_text \<noteq> [] \<and> client self = Some c \<and> map_of (tasks self) task_id = None \<longrightarrow>
      format_text self env input_text task_id w = (Inl (KeyError task_id), w))"
  by (simp add: format_text_def)

theorem format_text_validation_witness:
  "strip ''   '' = []
   \<and> format_text (configured (flaky_client 0 ''Done.'')) (no_faults ''2024-05-01 10:00:00'') ''   ''
        ''bullet'' fresh_world = (Inl (ValueError ''Input text cannot be empty''), fresh_world)
   \<and> strip ''text'' \<noteq> []
   \<and> client (configured (flaky_client 0 ''Done.'')) = Some (flaky_client 0 ''Done.'')
   \<and> map_of (tasks (configured (flaky_client 0 ''Done.''))) ''nonexistent'' = None
   \<and> format_text (configured (flaky_client 0 ''Done.'')) (no_faults ''2024-05-01 10:00:00'') ''text''
        ''nonexistent'' fresh_world = (Inl (KeyError ''nonexistent''), fresh_world)"
  using format_text_validation [of "''   ''" "configured (flaky_client 0 ''Done.'')"
      "no_faults ''2024-05-01 10:00:00''" "''bullet''" fresh_world "flaky_client 0 ''Done.''"]
    format_text_validation [of "''text''" "configured (flaky_client 0 ''Done.'')"
      "no_faults ''2024-05-01 10:00:00''" "''nonexistent''" fresh_world "flaky_client 0 ''Done.''"]
  by (simp add: strip_def isspace_def configured_def init_def)

text \<open>
  Claim C4 as stated (every non-empty input with an unknown task fails with the
  unknown-task error) fails for a bot without a client: the client check comes first.
\<close>

theorem format_text_unknown_task_counterexample:
  "strip ''text'' \<noteq> [] \<and> map_of (tasks init) ''nonexistent'' = None
   \<and> format_text init (no_faults ''2024-05-01 10:00:00'') ''text'' ''nonexistent'' fresh_world
       = (Inl (ValueError ''OpenAI client not initialized''), fresh_world)
   \<and> fst (format_text init (no_faults ''2024-05-01 10:00:00'') ''text'' ''nonexistent'' fresh_world)
       \<noteq> Inl (KeyError ''nonexistent'')"
  by (simp add: format_text_def strip_def isspace_def init_def)

text \<open>
  Claim C10. The checks of \<open>format_text\<close> run in this order: the empty input, then the
  missing client, then the task. So an empty input fails with the empty-input error
  whatever the client and the task; a non-empty input on a bot without a client fails
  with \<^verbatim>\<open>ValueError("OpenAI client not initialized")\<close> whatever the task, an unknown
  one included; and only with a client does an unknown task fail with \<^verbatim>\<open>KeyError\<close>.
\<close>

theorem format_text_precedence:
  "(strip input_text = [] \<longrightarrow>
      fst (format_text self env input_text task_id w) = Inl (ValueError ''Input text cannot be empty''))
   \<and> (strip input_text \<noteq> [] \<and> client self = None \<longrightarrow>
      fst (format_text self env input_text task_id w) = Inl (ValueError ''OpenAI client not initialized''))
   \<and> (strip input_text \<noteq> [] \<and> client self \<noteq> None \<and> map_of (tasks self) task_id = None \<longrightarrow>
      fst (format_text self env input_text task_id w) = Inl (KeyError task_id))"
  by (auto simp add: format_text_def)

theorem format_text_precedence_witness:
  "strip '''' = [] \<and> client init = None \<and> map_of (tasks init) ''nonexistent'' = None
   \<and> fst (format_text init (no_faults ''2024-05-01 10:00:00'') '''' ''nonexistent'' fresh_world)
       = Inl (ValueError ''Input text cannot be empty'')
   \<and> strip ''text'' \<noteq> []
   \<and> fst (format_text init (no_faults ''2024-05-01 10:00:00'') ''text'' ''nonexistent'' fresh_world)
       = Inl (ValueError ''OpenAI client not initialized'')
   \<and> client (configured (flaky_client 0 ''Done.'')) \<noteq> None
   \<and> fst (format_text (configured (flaky_client 0 ''Done.'')) (no_faults ''2024-05-01 10:00:00'')
        ''text'' ''nonexistent'' fresh_world) = Inl (KeyError ''nonexistent'')"
  using format_text_precedence [of "''''" init "no_faults ''2024-05-01 10:00:00''" "''nonexistent''" fresh_world]
    format_text_precedence [of "''text''" init "no_faults ''2024-05-01 10:00:00''" "''nonexistent''" fresh_world]
    format_text_precedence [of "''text''" "configured (flaky_client 0 ''Done.'')"
      "no_faults ''2024-05-01 10:00:00''" "''nonexistent''" fresh_world]
  by (simp add: strip_def isspace_def configured_def init_def)

section \<open>The history file\<close>

text \<open>
  Claim C5. When no file operation fails, \<open>save_to_history\<close> leaves in the history file
  the prior sequence followed by exactly one new entry, whose task is the given task,
  whose \<open>input_length\<close> is the length of the input text and whose \<open>output_length\<close> is
  the length of the output text; a file that does not exist counts as the empty
  sequence. Nothing is logged.
\<close>

theorem save_to_history_appends:
  assumes "read_error env = None" and "open_error env = None" and "dump_error env = None"
    and "history_file w = None \<and> prior = [] \<or> history_file w = Some (Document (JArr prior))"
    and "entry = history_entry (clock env) task_id (length input_text) (length output_text)"
  shows "history_file (save_to_history env input_text task_id output_text w)
           = Some (Document (JArr (prior @ [entry])))
       \<and> getitem entry ''timestamp'' = Inr (JStr (clock env))
       \<and> getitem entry ''task'' = Inr (JStr task_id)
       \<and> getitem entry ''input_length'' = Inr (JInt (int (length input_text)))
       \<and> getitem entry ''output_length'' = Inr (JInt (int (length output_text)))
       \<and> logged (save_to_history env input_text task_id output_text w) = logged w"
  using assms
  by (auto simp add: save_to_history_def save_to_history_try_def read_history_def write_history_def
      py_append_def history_entry_def)

theorem save_to_history_appends_witness:
  "history_file fresh_world = None
   \<and> history_file (save_to_history (no_faults ''2024-05-01 10:00:00'') ''hello'' ''formal'' ''Hello.'' fresh_world)
       = Some (Document (JArr [history_entry ''2024-05-01 10:00:00'' ''formal'' 5 6]))
   \<and> history_file (save_to_history (no_faults ''2024-05-02 11:30:00'') ''some text'' ''bullet'' ''- some text''
         (world_with (Document (JArr [history_entry ''2024-05-01 10:00:00'' ''formal'' 5 6]))))
       = Some (Document (JArr [history_entry ''2024-05-01 10:00:00'' ''formal'' 5 6,
                               history_entry ''2024-05-02 11:30:00'' ''bullet'' 9 11]))"
  using save_to_history_appends [of "no_faults ''2024-05-01 10:00:00''" fresh_world "[]"
      "history_entry ''2024-05-01 10:00:00'' ''formal'' 5 6" "''formal''" "''hello''" "''Hello.''"]
    save_to_history_appends [of "no_faults ''2024-05-02 11:30:00''"
      "world_with (Document (JArr [history_entry ''2024-05-01 10:00:00'' ''formal'' 5 6]))"
      "[history_entry ''2024-05-01 10:00:00'' ''formal'' 5 6]"
      "history_entry ''2024-05-02 11:30:00'' ''bullet'' 9 11" "''bullet''" "''some text''" "''- some text''"]
  by (simp add: no_faults_def fresh_world_def world_with_def history_entry_def)

text \<open>
  Saves that do not fail accumulate: after one save per call, the file holds the prior
  sequence followed by the entries of the calls, in the order of the calls.
\<close>

lemma save_to_history_file_ok:
  assumes "history_file w = None \<and> prior = [] \<or> history_file w = Some (Document (JArr prior))"
  shows "history_file (save_to_history (no_faults now) input_text task_id output_text w)
           = Some (Document (JArr (prior @ [history_entry now task_id (length input_text) (length output_text)])))"
  using assms
  by (auto simp add: save_to_history_def save_to_history_try_def read_history_def write_history_def
      py_append_def no_faults_def)

lemma saves_accumulate:
  assumes "history_file w = None \<and> prior = [] \<or> history_file w = Some (Document (JArr prior))"
    and "calls \<noteq> []"
  shows "history_file (foldl (\<lambda>w (now, input_text, task_id, output_text).
             save_to_history (no_faults now) input_text task_id output_text w) w calls)
       = Some (Document (JArr (prior @ map (\<lambda>(now, input_text, task_id, output_text).
             history_entry now task_id (length input_text) (length output_text)) calls)))"
  using assms
proof (induction calls arbitrary: w prior)
  case Nil
  then show ?case by simp
next
  case (Cons x calls)
  obtain now input_text task_id output_text where x: "x = (now, input_text, task_id, output_text)"
    by (cases x)
  let ?w1 = "save_to_history (no_faults now) input_text task_id output_text w"
  let ?p1 = "prior @ [history_entry now task_id (length input_text) (length output_text)]"
  have file1: "history_file ?w1 = Some (Document (JArr ?p1))"
    using save_to_history_file_ok [OF Cons.prems(1)] .
  show ?case
  proof (cases "calls = []")
    case True
    with file1 show ?thesis by (simp add: x)
  next
    case False
    from file1 have "history_file ?w1 = None \<and> ?p1 = [] \<or> history_file ?w1 = Some (Document (JArr ?p1))"
      by simp
    from Cons.IH [OF this False] show ?thesis by (simp add: x)
  qed
qed



section \<open>Failures while saving the history\<close>

text \<open>
  One call of \<open>save_to_history\<close> either appends its entry and logs nothing, or logs
  one failure; on a failure the file is what it was, unless the write itself failed
  after the file was opened.
\<close>

lemma save_to_history_outcome:
  "(logged (save_to_history env i t out w) = logged w
      \<and> (\<exists>prior. history_file (save_to_history env i t out w)
            = Some (Document (JArr (prior @ [history_entry (clock env) t (length i) (length out)])))))
   \<or> ((\<exists>e. logged (save_to_history env i t out w) = logged w @ [FailedToSaveHistory e])
      \<and> (history_file (save_to_history env i t out w) = history_file w
          \<or> open_error env = None \<and> dump_error env \<noteq> None
            \<and> history_file (save_to_history env i t out w) = Some Garbled))"
  by (auto simp add: save_to_history_def save_to_history_try_def read_history_def write_history_def
      py_append_def split: option.splits file_content.splits json.splits)

lemma format_text_first_attempt:
  assumes "strip input_text \<noteq> []"
    and "client self = Some c"
    and "map_of (tasks self) task_id = Some task_config"
    and "c (length (requests w)) (build_request self task_config input_text) = Response (text # others)"
  shows "format_text self env input_text task_id w =
      (Inr (Some text), save_to_history env input_text task_id text
         (w\<lparr>requests := requests w @ [build_request self task_config input_text]\<rparr>))"
  using assms by (simp add: format_text_def range3 Let_def)

text \<open>When the body of \<open>save_to_history\<close> fails.\<close>

lemma save_to_history_try_fails_iff:
  "(\<exists>e. fst (save_to_history_try env i t out w) = Inl e) \<longleftrightarrow>
     (history_file w \<noteq> None \<and> (read_error env \<noteq> None \<or> history_file w = Some Garbled
        \<or> (\<exists>d. history_file w = Some (Document d) \<and> (\<forall>xs. d \<noteq> JArr xs))))
     \<or> open_error env \<noteq> None \<or> dump_error env \<noteq> None"
  by (auto simp add: save_to_history_try_def read_history_def write_history_def py_append_def
      split: option.splits file_content.splits sum.splits json.splits)









section \<open>Statistics\<close>

subsection \<open>The dictionary of counts\<close>
















lemma task_usage_positive:
  assumes "N \<noteq> 0"
  shows "task_usage N d w
     = (Inr (map (\<lambda>(k, t, n). (t, n, of_nat n / of_nat N * 100)) d),
        w\<lparr>divisions := divisions w @ map (\<lambda>(k, t, n). (of_nat n, of_nat N)) d\<rparr>)"
  using assms
  by (induction d arbitrary: w) (auto simp add: truediv_def)








subsection \<open>No division by zero\<close>

text \<open>
  The exceptions of the steps before the divisions: none is a \<^verbatim>\<open>ZeroDivisionError\<close>.
  And a value that is true and has a length has a positive length.
\<close>

lemma truthy_len: "truthy h \<Longrightarrow> len h = Inr n \<Longrightarrow> 0 < n"
  by (cases h) auto

lemma getitem_error: "getitem v k = Inl e \<Longrightarrow> e = TypeError \<or> e = KeyError k"
  by (cases v) (auto split: option.splits)

lemma hash_key_error: "hash_key v = Inl e \<Longrightarrow> e = TypeError"
  by (cases v) auto

lemma add_number_error: "add_number a v = Inl e \<Longrightarrow> e = TypeError"
  by (cases v) auto

lemma len_error: "len v = Inl e \<Longrightarrow> e = TypeError"
  by (cases v) auto

lemma iterate_error: "iterate v = Inl e \<Longrightarrow> e = TypeError"
  by (cases v) auto

lemma count_entries_error:
  "count_entries xs acc = Inl e \<Longrightarrow> e = TypeError \<or> (\<exists>k. e = KeyError k)"
proof (induction xs arbitrary: acc)
  case Nil
  then show ?case by simp
next
  case (Cons entry rest)
  obtain counts tin tout where acc: "acc = (counts, tin, tout)" by (cases acc)
  from Cons.prems show ?case
    unfolding acc
    by (auto simp add: and_then_def split: sum.splits
        dest: getitem_error hash_key_error add_number_error Cons.IH)
qed

lemma compute_statistics_divisions:
  assumes "truthy h"
  shows "\<exists>ds. divisions (snd (compute_statistics h w)) = divisions w @ ds
       \<and> (\<forall>(a, b) \<in> set ds. \<exists>n. len h = Inr n \<and> 0 < n \<and> b = of_nat n)
       \<and> fst (compute_statistics h w) \<noteq> Inl ZeroDivisionError"
proof (cases "len h")
  case (Inl e)
  then have "compute_statistics h w = (Inl e, w)" by (simp add: compute_statistics_def and_then_def)
  moreover have "e = TypeError" using Inl by (rule len_error)
  ultimately show ?thesis by simp
next
  case (Inr n)
  with assms have n: "0 < n" by (rule truthy_len)
  show ?thesis
  proof (cases "iterate h")
    case (Inl e)
    then have "compute_statistics h w = (Inl e, w)"
      using Inr by (simp add: compute_statistics_def and_then_def)
    moreover have "e = TypeError" using Inl by (rule iterate_error)
    ultimately show ?thesis by simp
  next
    case entries: (Inr entries)
    show ?thesis
    proof (cases "count_entries entries ([], 0, 0)")
      case (Inl e)
      then have "compute_statistics h w = (Inl e, w)"
        using Inr entries by (simp add: compute_statistics_def and_then_def)
      moreover have "e \<noteq> ZeroDivisionError" using count_entries_error [OF Inl] by auto
      ultimately show ?thesis by simp
    next
      case acc: (Inr acc)
      obtain counts tin tout where acc_eq: "acc = (counts, tin, tout)" by (cases acc)
      let ?ds = "map (\<lambda>(k, t, c). (of_nat c, of_nat n :: rat)) counts @ [(tin, of_nat n), (tout, of_nat n)]"
      have n0: "n \<noteq> 0" using n by simp
      have "\<exists>s. compute_statistics h w = (Inr s, w\<lparr>divisions := divisions w @ ?ds\<rparr>)"
        using Inr entries acc n0
        by (simp add: compute_statistics_def and_then_def acc_eq task_usage_positive [OF n0] truediv_def)
      then obtain s where cs: "compute_statistics h w = (Inr s, w\<lparr>divisions := divisions w @ ?ds\<rparr>)"
        by blast
      have divs: "divisions (snd (compute_statistics h w)) = divisions w @ ?ds"
        using cs by simp
      have pos: "\<forall>(a, b) \<in> set ?ds. \<exists>m. len h = Inr m \<and> 0 < m \<and> b = of_nat m"
        using Inr n by auto
      have ok: "fst (compute_statistics h w) \<noteq> Inl ZeroDivisionError"
        using cs by simp
      from divs pos ok show ?thesis by blast
    qed
  qed
qed

text \<open>
  Claim C8. When the history file does not exist, or holds the empty sequence,
  \<open>display_statistics\<close> gives the empty result and leaves the world as it is: it has
  divided nothing. Whatever the file holds, every division it performs has the number
  of entries (\<^verbatim>\<open>len(history)\<close>) as divisor, which is positive there, and the error it
  reports is never a \<^verbatim>\<open>ZeroDivisionError\<close>.
\<close>

theorem statistics_division_safe:
  "(history_file w = None \<or> read_error env = None \<and> history_file w = Some (Document (JArr []))
      \<longrightarrow> display_statistics env w = (NoHistory, w))
   \<and> fst (display_statistics env w) \<noteq> ErrorLoadingStatistics ZeroDivisionError
   \<and> (\<exists>ds. divisions (snd (display_statistics env w)) = divisions w @ ds
        \<and> (\<forall>(a, b) \<in> set ds. \<exists>n. and_then (read_history env w) len = Inr n \<and> 0 < n \<and> b = of_nat n))"
proof (intro conjI)
  show "history_file w = None \<or> read_error env = None \<and> history_file w = Some (Document (JArr []))
      \<longrightarrow> display_statistics env w = (NoHistory, w)"
    by (auto simp add: display_statistics_def read_history_def)
next
  show "fst (display_statistics env w) \<noteq> ErrorLoadingStatistics ZeroDivisionError"
  proof (cases "history_file w = None")
    case True
    then show ?thesis by (simp add: display_statistics_def)
  next
    case False
    show ?thesis
    proof (cases "read_history env w")
      case (Inl e)
      then have "e \<noteq> ZeroDivisionError"
        by (auto simp add: read_history_def split: option.splits file_content.splits)
      with Inl False show ?thesis by (simp add: display_statistics_def)
    next
      case (Inr h)
      show ?thesis
      proof (cases "truthy h")
        case True
        from compute_statistics_divisions [OF True, of w]
        have "fst (compute_statistics h w) \<noteq> Inl ZeroDivisionError" by blast
        with Inr False True show ?thesis
          by (auto simp add: display_statistics_def split: prod.splits sum.splits)
      next
        case False
        with Inr \<open>history_file w \<noteq> None\<close> show ?thesis by (simp add: display_statistics_def)
      qed
    qed
  qed
next
  show "\<exists>ds. divisions (snd (display_statistics env w)) = divisions w @ ds
        \<and> (\<forall>(a, b) \<in> set ds. \<exists>n. and_then (read_history env w) len = Inr n \<and> 0 < n \<and> b = of_nat n)"
  proof (cases "history_file w \<noteq> None \<and> (\<exists>h. read_history env w = Inr h \<and> truthy h)")
    case True
    then obtain h where present: "history_file w \<noteq> None" and h: "read_history env w = Inr h"
      and tr: "truthy h" by blast
    from compute_statistics_divisions [OF tr, of w] obtain ds where
      ds: "divisions (snd (compute_statistics h w)) = divisions w @ ds"
      and pos: "\<forall>(a, b) \<in> set ds. \<exists>n. len h = Inr n \<and> 0 < n \<and> b = of_nat n"
      by blast
    have "divisions (snd (display_statistics env w)) = divisions (snd (compute_statistics h w))"
      using present h tr by (auto simp add: display_statistics_def split: prod.splits sum.splits)
    moreover have "and_then (read_history env w) len = len h" using h by (simp add: and_then_def)
    ultimately have "divisions (snd (display_statistics env w)) = divisions w @ ds
        \<and> (\<forall>(a, b) \<in> set ds. \<exists>n. and_then (read_history env w) len = Inr n \<and> 0 < n \<and> b = of_nat n)"
      using ds pos by simp
    then show ?thesis by (rule exI)
  next
    case False
    then have "divisions (snd (display_statistics env w)) = divisions w"
      by (auto simp add: display_statistics_def split: sum.splits)
    then show ?thesis by (intro exI [of _ "[]"]) simp
  qed
qed

theorem statistics_division_safe_witness:
  "history_file fresh_world = None
   \<and> display_statistics (no_faults ''2024-05-04 09:00:00'') fresh_world = (NoHistory, fresh_world)
   \<and> read_error (no_faults ''2024-05-04 09:00:00'') = None
   \<and> history_file (world_with (Document (JArr []))) = Some (Document (JArr []))
   \<and> display_statistics (no_faults ''2024-05-04 09:00:00'') (world_with (Document (JArr [])))
       = (NoHistory, world_with (Document (JArr [])))
   \<and> divisions (snd (display_statistics (no_faults ''2024-05-04 09:00:00'')
          (world_with (Document (JArr (map entry_of sample_history))))))
       = [(2, 4), (1, 4), (1, 4), (64, 4), (48, 4)]
   \<and> and_then (read_history (no_faults ''2024-05-04 09:00:00'')
          (world_with (Document (JArr (map entry_of sample_history))))) len = Inr 4"
proof -
  let ?env = "no_faults ''2024-05-04 09:00:00''"
  have a: "history_file fresh_world = None" by (simp add: fresh_world_def)
  have b: "read_error ?env = None" by (simp add: no_faults_def)
  have c: "history_file (world_with (Document (JArr []))) = Some (Document (JArr []))"
    by (simp add: world_with_def)
  have d: "divisions (snd (display_statistics ?env
          (world_with (Document (JArr (map entry_of sample_history))))))
       = [(2, 4), (1, 4), (1, 4), (64, 4), (48, 4)]"
    by (simp add: display_statistics_def read_history_def no_faults_def world_with_def fresh_world_def
        sample_history_def entry_of_def history_entry_def compute_statistics_def and_then_def
        truediv_def)
  have e: "and_then (read_history ?env
          (world_with (Document (JArr (map entry_of sample_history))))) len = Inr 4"
    by (simp add: read_history_def no_faults_def world_with_def and_then_def sample_history_def)
  from statistics_division_safe [of fresh_world ?env] a
  have f: "display_statistics ?env fresh_world = (NoHistory, fresh_world)" by blast
  from statistics_division_safe [of "world_with (Document (JArr []))" ?env] b c
  have g: "display_statistics ?env (world_with (Document (JArr [])))
       = (NoHistory, world_with (Document (JArr [])))" by blast
  from a b c d e f g show ?thesis by blast
qed

end
